theory Spec2Isabelle
  imports Complex_Main "HOL-Library.Sublist" "HOL-Library.Word"
begin

unbundle bit_operations_syntax

section \<open>Python strings\<close>

text \<open>
  A Python \<^verbatim>\<open>str\<close> is a sequence of Unicode code points, so it is modelled as a list of
  natural numbers (one per code point); \<open>length\<close> is then Python's \<^verbatim>\<open>len\<close>.
  \<open>ascii\<close> embeds an ASCII literal.
\<close>

type_synonym pystr = "nat list"

definition ascii :: "string \<Rightarrow> pystr" where
  "ascii s = map of_char s"

text \<open>
  \<^verbatim>\<open>str.isspace\<close> on one code point: the code points CPython 3 classifies as whitespace,
  which are the ones \<^verbatim>\<open>str.strip()\<close> removes.
\<close>

definition isspace :: "nat \<Rightarrow> bool" where
  "isspace c \<longleftrightarrow>
     (0x9 \<le> c \<and> c \<le> 0xD) \<or> (0x1C \<le> c \<and> c \<le> 0x20) \<or> c = 0x85 \<or> c = 0xA0 \<or>
     c = 0x1680 \<or> (0x2000 \<le> c \<and> c \<le> 0x200A) \<or> c = 0x2028 \<or> c = 0x2029 \<or>
     c = 0x202F \<or> c = 0x205F \<or> c = 0x3000"

definition strip :: "pystr \<Rightarrow> pystr" where
  "strip s = rev (dropWhile isspace (rev (dropWhile isspace s)))"

definition newline :: nat where
  "newline = 0xA"

text \<open>\<^verbatim>\<open>s.startswith(t)\<close> and \<^verbatim>\<open>s.endswith(t)\<close>.\<close>

definition startswith :: "pystr \<Rightarrow> pystr \<Rightarrow> bool" where
  "startswith s t = (take (length t) s = t)"

definition endswith :: "pystr \<Rightarrow> pystr \<Rightarrow> bool" where
  "endswith s t = (length t \<le> length s \<and> drop (length s - length t) s = t)"

section \<open>The transcript reconciler (app.py, ApplicationController)\<close>

text \<open>
  The window is an external collaborator: it is modelled by the calls the controller makes
  on it, in order. \<^verbatim>\<open>set_transcript\<close> replaces the displayed text, \<^verbatim>\<open>append_transcript\<close>
  inserts its argument at the end.
\<close>

datatype window_call = Set_transcript pystr | Append_transcript pystr

record controller =
  transcript_text :: pystr
  window_calls :: "window_call list"

text \<open>
  \<^verbatim>\<open>_longest_overlap\<close>: \<^verbatim>\<open>for size in range(max_len, 0, -1)\<close>, returning the first
  \<open>size\<close> for which \<^verbatim>\<open>current.startswith(previous[-size:])\<close>, and 0 when the loop ends.
  For \<open>1 \<le> size \<le> len(previous)\<close> the slice \<^verbatim>\<open>previous[-size:]\<close> is the last
  \<open>size\<close> characters.
\<close>

fun overlap_scan :: "pystr \<Rightarrow> pystr \<Rightarrow> nat \<Rightarrow> nat" where
  "overlap_scan previous current 0 = 0"
| "overlap_scan previous current (Suc n) =
     (if startswith current (drop (length previous - Suc n) previous) then Suc n
      else overlap_scan previous current n)"

definition longest_overlap :: "pystr \<Rightarrow> pystr \<Rightarrow> nat" where
  "longest_overlap previous current =
     overlap_scan previous current (min (length previous) (length current))"

definition add_history_entry :: "controller \<Rightarrow> pystr \<Rightarrow> controller" where
  "add_history_entry self text =
     (let normalized = strip text in
      if normalized = [] then self
      else if transcript_text self = [] then
        self\<lparr>transcript_text := normalized,
             window_calls := window_calls self @ [Set_transcript normalized]\<rparr>
      else if normalized = transcript_text self then self
      else if startswith normalized (transcript_text self) then
        (let addition = drop (length (transcript_text self)) normalized in
         if addition \<noteq> [] then
           self\<lparr>transcript_text := normalized,
                window_calls := window_calls self @ [Append_transcript addition]\<rparr>
         else self)
      else if endswith (transcript_text self) normalized then self
      else
        (let overlap = longest_overlap (transcript_text self) normalized in
         if overlap > 0 then
           (let addition = drop overlap normalized in
            if addition \<noteq> [] then
              self\<lparr>transcript_text := transcript_text self @ addition,
                   window_calls := window_calls self @ [Append_transcript addition]\<rparr>
            else self)
         else
           (let separator =
                  (if endswith (transcript_text self) [newline] \<or> transcript_text self = []
                   then [] else [newline]);
                addition = separator @ normalized in
            self\<lparr>transcript_text := transcript_text self @ addition,
                 window_calls := window_calls self @ [Append_transcript addition]\<rparr>)))"

text \<open>\<^verbatim>\<open>_reset_transcript_cache\<close> and \<^verbatim>\<open>_handle_transcript_modified\<close>: the caller's clear and edit.\<close>

definition reset_transcript_cache :: "controller \<Rightarrow> controller" where
  "reset_transcript_cache self = self\<lparr>transcript_text := []\<rparr>"

definition handle_transcript_modified :: "controller \<Rightarrow> pystr \<Rightarrow> controller" where
  "handle_transcript_modified self text = self\<lparr>transcript_text := text\<rparr>"

text \<open>Feeding a sequence of fragments, one call each.\<close>

definition add_history_entries :: "controller \<Rightarrow> pystr list \<Rightarrow> controller" where
  "add_history_entries self texts = foldl add_history_entry self texts"

subsection \<open>The decision policy as the specification words it\<close>

text \<open>
  The overlap of rule 5: the greatest \<open>k\<close> with \<open>k \<le> min |P| |F|\<close> such that the last
  \<open>k\<close> characters of \<open>P\<close> are the first \<open>k\<close> characters of \<open>F\<close> (0 always qualifies).
\<close>

definition spec_overlap :: "pystr \<Rightarrow> pystr \<Rightarrow> nat" where
  "spec_overlap P F =
     Max {k \<in> {0..min (length P) (length F)}. drop (length P - k) P = take k F}"

text \<open>
  The six rules in order, giving the new transcript and the increment. \<open>F\<close> is the
  fragment after trimming.
\<close>

definition spec_reconcile :: "pystr \<Rightarrow> pystr \<Rightarrow> pystr \<times> pystr" where
  "spec_reconcile P F =
     (if P = [] then (F, F)
      else if F = P then (P, [])
      else if prefix P F then (F, drop (length P) F)
      else if suffix F P then (P, [])
      else if spec_overlap P F > 0 then
        (P @ drop (spec_overlap P F) F, drop (spec_overlap P F) F)
      else if P = [] \<or> last P = newline then (P @ F, F)
      else (P @ newline # F, newline # F))"

text \<open>How an increment reaches the display: the first text is set, later ones are appended.\<close>

definition spec_display :: "pystr \<Rightarrow> pystr \<Rightarrow> window_call list" where
  "spec_display P inc =
     (if P = [] then [Set_transcript inc]
      else if inc = [] then [] else [Append_transcript inc])"

section \<open>Python values met by the backend (translation.py)\<close>

text \<open>
  What \<^verbatim>\<open>json.loads\<close> returns: \<^verbatim>\<open>None\<close>, a bool, a number, a str, a list or a dict.
  A dict is an association list read with \<open>map_of\<close>. Numbers are rationals: the code
  only tests them for truth (non-zero) and never computes with them.
\<close>

datatype json =
    JNull
  | JBool bool
  | JNum rat
  | JStr pystr
  | JArr "json list"
  | JObj "(pystr \<times> json) list"

type_synonym bytes = "8 word list"

text \<open>
  The exceptions of the model. \<open>Transport_error\<close> stands for whatever else the
  websocket library raises, with its message.
\<close>

datatype exn =
    RuntimeError pystr
  | JSONDecodeError
  | AttributeError
  | TypeError
  | ZeroDivisionError
  | Transport_error pystr

text \<open>
  A socket of the websocket library, seen from the client: \<open>incoming\<close> scripts what the
  successive \<^verbatim>\<open>recv()\<close> calls give (nothing left means no data within the timeout),
  \<open>sent\<close> collects the messages passed to \<^verbatim>\<open>send\<close> (each stands for its
  \<^verbatim>\<open>json.dumps\<close> text), \<open>send_raises\<close> and \<open>close_raises\<close> say whether the transport
  fails there. A received payload is represented by the value \<^verbatim>\<open>json.loads\<close> gives for
  it; \<open>Malformed\<close> is a payload that \<^verbatim>\<open>json.loads\<close> rejects.
\<close>

datatype recv_result =
    Timeout
  | Connection_closed
  | Recv_raises exn
  | Malformed
  | Message json

record websocket =
  url :: pystr
  header :: "pystr list"
  timeout :: "rat option"
  incoming :: "recv_result list"
  sent :: "json list"
  send_raises :: "exn option"
  close_raises :: "exn option"
  is_closed :: bool

text \<open>
  Library functions the code calls and this repository does not define:
  \<^verbatim>\<open>json.dumps(v, ensure_ascii=False)\<close>, \<^verbatim>\<open>str(v)\<close> for a value that is not a str,
  the format \<^verbatim>\<open>{x:.1f}\<close>, \<^verbatim>\<open>str(exc)\<close> for an exception the interpreter raises,
  \<^verbatim>\<open>websocket.create_connection\<close>, and whether the websocket module could be
  imported.
\<close>

record pylib =
  json_dumps :: "json \<Rightarrow> pystr"
  py_str :: "json \<Rightarrow> pystr"
  format_1f :: "rat \<Rightarrow> pystr"
  exc_message :: "exn \<Rightarrow> pystr"
  create_connection :: "pystr \<Rightarrow> pystr list \<Rightarrow> exn + websocket"
  websocket_imported :: bool

text \<open>Truth value of a Python object, \<^verbatim>\<open>a or b\<close>, \<^verbatim>\<open>d.get(k)\<close> and \<^verbatim>\<open>f"{v}"\<close>.\<close>

fun truthy :: "json \<Rightarrow> bool" where
  "truthy JNull = False"
| "truthy (JBool b) = b"
| "truthy (JNum x) = (x \<noteq> 0)"
| "truthy (JStr s) = (s \<noteq> [])"
| "truthy (JArr xs) = (xs \<noteq> [])"
| "truthy (JObj d) = (d \<noteq> [])"

definition py_or :: "json \<Rightarrow> json \<Rightarrow> json" where
  "py_or a b = (if truthy a then a else b)"

definition dict_get :: "(pystr \<times> json) list \<Rightarrow> pystr \<Rightarrow> json" where
  "dict_get d k = (case map_of d k of None \<Rightarrow> JNull | Some v \<Rightarrow> v)"

definition py_format :: "pylib \<Rightarrow> json \<Rightarrow> pystr" where
  "py_format L v = (case v of JStr s \<Rightarrow> s | _ \<Rightarrow> py_str L v)"

text \<open>\<^verbatim>\<open>t in s\<close> for two strings: \<open>t\<close> occurs in \<open>s\<close>.\<close>

fun contains :: "pystr \<Rightarrow> pystr \<Rightarrow> bool" where
  "contains [] t = (t = [])"
| "contains (c # s) t = (startswith (c # s) t \<or> contains s t)"

text \<open>Lists and dicts cannot be hashed: testing them against a set raises \<^verbatim>\<open>TypeError\<close>.\<close>

fun hashable :: "json \<Rightarrow> bool" where
  "hashable (JArr xs) = False"
| "hashable (JObj d) = False"
| "hashable v = True"

text \<open>
  \<^verbatim>\<open>event_type and "response.text" in event_type\<close>: false for a false \<open>event_type\<close>,
  a substring test for a str, membership for a list, a key test for a dict, and
  \<^verbatim>\<open>TypeError\<close> for a true bool or number.
\<close>

definition has_response_text :: "json \<Rightarrow> exn + bool" where
  "has_response_text event_type =
     (if \<not> truthy event_type then Inr False
      else case event_type of
        JStr s \<Rightarrow> Inr (contains s (ascii ''response.text''))
      | JArr xs \<Rightarrow> Inr (JStr (ascii ''response.text'') \<in> set xs)
      | JObj d \<Rightarrow> Inr (ascii ''response.text'' \<in> fst ` set d)
      | _ \<Rightarrow> Inl TypeError)"

text \<open>
  \<^verbatim>\<open>base64.b64encode(b).decode("ascii")\<close>: three bytes give four characters of the
  standard alphabet, and a last group of one or two bytes is padded with \<open>=\<close>.
\<close>

definition b64_alphabet :: pystr where
  "b64_alphabet =
     ascii ''ABCDEFGHIJKLMNOPQRSTUVWXYZabcdefghijklmnopqrstuvwxyz0123456789+/''"

definition b64_char :: "nat \<Rightarrow> nat" where
  "b64_char n = b64_alphabet ! (n mod 64)"

fun b64encode :: "bytes \<Rightarrow> pystr" where
  "b64encode [] = []"
| "b64encode [a] =
     (let n = unat a * 65536
      in [b64_char (n div 262144), b64_char (n div 4096), 0x3D, 0x3D])"
| "b64encode [a, b] =
     (let n = unat a * 65536 + unat b * 256
      in [b64_char (n div 262144), b64_char (n div 4096), b64_char (n div 64), 0x3D])"
| "b64encode (a # b # c # rest) =
     (let n = unat a * 65536 + unat b * 256 + unat c
      in [b64_char (n div 262144), b64_char (n div 4096), b64_char (n div 64), b64_char n]
         @ b64encode rest)"

text \<open>Decimal text of a Python int.\<close>

fun digits :: "nat \<Rightarrow> pystr" where
  "digits n = (if n < 10 then [48 + n] else digits (n div 10) @ [48 + n mod 10])"

declare digits.simps [simp del]

definition str_int :: "int \<Rightarrow> pystr" where
  "str_int i = (if i < 0 then 0x2D # digits (nat (- i)) else digits (nat i))"

section \<open>DashScopeRealtimeBackend\<close>

record dashscope_config =
  api_key :: pystr
  model :: pystr
  target_language :: pystr

record dashscope_backend =
  config :: dashscope_config
  ds_samplerate :: int
  ws :: "websocket option"
  event_counter :: int
  dropped :: "websocket list"

text \<open>
  \<open>dropped\<close> is not a field of the class: it keeps, in their last state, the sockets the
  backend has let go of, which is what an observer holding the socket object would see.
\<close>

definition BASE_WS_ENDPOINT :: pystr where
  "BASE_WS_ENDPOINT = ascii ''wss://dashscope.aliyuncs.com/api-ws/v1/realtime''"

definition msg_missing_dependency :: pystr where
  "msg_missing_dependency =
     [0x7F3A, 0x5C11] @ ascii '' websocket-client '' @
     [0x4F9D, 0x8D56, 0xFF0C, 0x8BF7, 0x8FD0, 0x884C] @
     ascii '' pip install websocket-client''"

definition msg_no_api_key :: pystr where
  "msg_no_api_key =
     [0x672A, 0x914D, 0x7F6E] @ ascii '' DashScope API Key'' @ [0xFF0C, 0x8BF7, 0x5728] @
     ascii '' config.ini '' @ [0x4E2D, 0x586B, 0x5199] @ ascii '' dashscope.api_key''"

definition msg_not_connected :: pystr where
  "msg_not_connected = ascii ''WebSocket '' @ [0x5C1A, 0x672A, 0x5EFA, 0x7ACB]"

definition msg_closed :: pystr where
  "msg_closed = ascii ''DashScope WebSocket '' @ [0x5DF2, 0x5173, 0x95ED]"

definition error_prefix :: pystr where
  "error_prefix =
     ascii ''DashScope '' @ [0x670D, 0x52A1, 0x8FD4, 0x56DE, 0x9519, 0x8BEF] @ ascii '': ''"

text \<open>\<^verbatim>\<open>__init__\<close>: fails when the websocket module is missing.\<close>

definition dashscope_init :: "pylib \<Rightarrow> dashscope_config \<Rightarrow> int \<Rightarrow> exn + dashscope_backend" where
  "dashscope_init L cfg rate =
     (if \<not> websocket_imported L then Inl (RuntimeError msg_missing_dependency)
      else Inr \<lparr>config = cfg, ds_samplerate = rate, ws = None, event_counter = 0,
                dropped = []\<rparr>)"

text \<open>
  \<^verbatim>\<open>_next_event_id\<close>; \<open>now\<close> is the value of \<^verbatim>\<open>int(time.time() * 1000)\<close> at the call.
\<close>

definition event_id :: "int \<Rightarrow> int \<Rightarrow> pystr" where
  "event_id now counter = ascii ''event_'' @ str_int now @ ascii ''_'' @ str_int counter"

definition next_event_id :: "int \<Rightarrow> dashscope_backend \<Rightarrow> pystr \<times> dashscope_backend" where
  "next_event_id now self =
     (let self' = self\<lparr>event_counter := event_counter self + 1\<rparr>
      in (event_id now (event_counter self'), self'))"

text \<open>\<^verbatim>\<open>_send_json\<close>. An exception leaves the object as it was when raised.\<close>

definition send_json :: "dashscope_backend \<Rightarrow> json \<Rightarrow> (exn + unit) \<times> dashscope_backend" where
  "send_json self message =
     (case ws self of
        None \<Rightarrow> (Inl (RuntimeError msg_not_connected), self)
      | Some sock \<Rightarrow>
          (case send_raises sock of
             Some e \<Rightarrow> (Inl e, self)
           | None \<Rightarrow> (Inr (), self\<lparr>ws := Some (sock\<lparr>sent := sent sock @ [message]\<rparr>)\<rparr>)))"

definition send_session_update :: "int \<Rightarrow> dashscope_backend \<Rightarrow> (exn + unit) \<times> dashscope_backend" where
  "send_session_update now self =
     (let session = JObj
            [(ascii ''modalities'', JArr [JStr (ascii ''text'')]),
             (ascii ''input_audio_format'', JStr (ascii ''pcm16'')),
             (ascii ''translation'',
                JObj [(ascii ''language'', JStr (target_language (config self)))])];
          (eid, self') = next_event_id now self;
          payload = JObj
            [(ascii ''event_id'', JStr eid),
             (ascii ''type'', JStr (ascii ''session.update'')),
             (ascii ''session'', session)]
      in send_json self' payload)"

definition start :: "pylib \<Rightarrow> int \<Rightarrow> dashscope_backend \<Rightarrow> (exn + unit) \<times> dashscope_backend" where
  "start L now self =
     (if api_key (config self) = [] then (Inl (RuntimeError msg_no_api_key), self)
      else
        (let url = BASE_WS_ENDPOINT @ ascii ''?model='' @ model (config self);
             headers = [ascii ''Authorization: Bearer '' @ api_key (config self)]
         in case create_connection L url headers of
              Inl e \<Rightarrow> (Inl e, self)
            | Inr sock \<Rightarrow>
                send_session_update now
                  (self\<lparr>ws := Some (sock\<lparr>timeout := Some (1 / 10)\<rparr>)\<rparr>)))"

definition send_audio ::
  "int \<Rightarrow> dashscope_backend \<Rightarrow> bytes \<Rightarrow> (exn + unit) \<times> dashscope_backend" where
  "send_audio now self pcm_chunk =
     (if ws self = None \<or> pcm_chunk = [] then (Inr (), self)
      else
        (let (eid, self') = next_event_id now self;
             audio_event = JObj
               [(ascii ''event_id'', JStr eid),
                (ascii ''type'', JStr (ascii ''input_audio_buffer.append'')),
                (ascii ''audio'', JStr (b64encode pcm_chunk))]
         in send_json self' audio_event))"

definition flush :: "dashscope_backend \<Rightarrow> (exn + unit) \<times> dashscope_backend" where
  "flush self = (Inr (), self)"

text \<open>The \<^verbatim>\<open>error\<close> branch of \<^verbatim>\<open>poll_translations\<close>: the text put into the exception.\<close>

definition error_details :: "pylib \<Rightarrow> (pystr \<times> json) list \<Rightarrow> pystr" where
  "error_details L data =
     (let details = dict_get data (ascii ''message'');
          details =
            (if \<not> truthy details then
               (case dict_get data (ascii ''error'') of
                  JObj err \<Rightarrow> dict_get err (ascii ''message'')
                | _ \<Rightarrow> details)
             else details);
          details =
            (if \<not> truthy details then JStr (json_dumps L (JObj data)) else details)
      in py_format L details)"

definition append_if_true :: "json \<Rightarrow> json list \<Rightarrow> json list" where
  "append_if_true text transcripts = (if truthy text then transcripts @ [text] else transcripts)"

text \<open>
  The body of the receive loop after \<^verbatim>\<open>json.loads\<close>: the dispatch on \<^verbatim>\<open>data.get("type")\<close>.
  It gives the transcripts collected so far, or the exception raised.
\<close>

definition handle_event :: "pylib \<Rightarrow> json \<Rightarrow> json list \<Rightarrow> exn + json list" where
  "handle_event L payload transcripts =
     (case payload of
        JObj data \<Rightarrow>
          (let event_type = dict_get data (ascii ''type'') in
           if \<not> hashable event_type then Inl TypeError
           else if event_type = JStr (ascii ''response.audio_transcript.delta'') \<or>
                   event_type = JStr (ascii ''response.audio_transcript.done'') then
             Inr (append_if_true (dict_get data (ascii ''transcript'')) transcripts)
           else
             (case has_response_text event_type of
                Inl e \<Rightarrow> Inl e
              | Inr True \<Rightarrow>
                  (let text = py_or (dict_get data (ascii ''text''))
                                (dict_get data (ascii ''stash''));
                       text =
                         (if \<not> truthy text then
                            (case dict_get data (ascii ''part'') of
                               JObj part \<Rightarrow> dict_get part (ascii ''text'')
                             | _ \<Rightarrow> text)
                          else text)
                   in Inr (append_if_true text transcripts))
              | Inr False \<Rightarrow>
                  if event_type = JStr (ascii ''response.content_part.added'') then
                    (case py_or (dict_get data (ascii ''part'')) (JObj []) of
                       JObj part \<Rightarrow>
                         if dict_get part (ascii ''type'') = JStr (ascii ''text'') then
                           Inr (append_if_true (dict_get part (ascii ''text'')) transcripts)
                         else Inr transcripts
                     | _ \<Rightarrow> Inl AttributeError)
                  else if event_type = JStr (ascii ''error'') then
                    Inl (RuntimeError (error_prefix @ error_details L data))
                  else Inr transcripts))
      | _ \<Rightarrow> Inl AttributeError)"

text \<open>
  The \<^verbatim>\<open>while True\<close> loop of \<^verbatim>\<open>poll_translations\<close>, one \<^verbatim>\<open>recv()\<close> per round; it gives
  the result and what is still to be received.
\<close>

fun drain :: "pylib \<Rightarrow> recv_result list \<Rightarrow> json list \<Rightarrow> (exn + json list) \<times> recv_result list" where
  "drain L [] transcripts = (Inr transcripts, [])"
| "drain L (Timeout # rest) transcripts = (Inr transcripts, rest)"
| "drain L (Connection_closed # rest) transcripts = (Inl (RuntimeError msg_closed), rest)"
| "drain L (Recv_raises e # rest) transcripts = (Inl e, rest)"
| "drain L (Malformed # rest) transcripts = (Inl JSONDecodeError, rest)"
| "drain L (Message payload # rest) transcripts =
     (case handle_event L payload transcripts of
        Inl e \<Rightarrow> (Inl e, rest)
      | Inr transcripts' \<Rightarrow> drain L rest transcripts')"

text \<open>The events of one poll call that came before a given one, handled in order.\<close>

fun handle_events :: "pylib \<Rightarrow> json list \<Rightarrow> json list \<Rightarrow> exn + json list" where
  "handle_events L [] transcripts = Inr transcripts"
| "handle_events L (payload # payloads) transcripts =
     (case handle_event L payload transcripts of
        Inl e \<Rightarrow> Inl e
      | Inr transcripts' \<Rightarrow> handle_events L payloads transcripts')"

definition poll_translations ::
  "pylib \<Rightarrow> dashscope_backend \<Rightarrow> (exn + json list) \<times> dashscope_backend" where
  "poll_translations L self =
     (case ws self of
        None \<Rightarrow> (Inr [], self)
      | Some sock \<Rightarrow>
          (let (r, rest) = drain L (incoming sock) []
           in (r, self\<lparr>ws := Some (sock\<lparr>incoming := rest\<rparr>)\<rparr>)))"

text \<open>
  \<^verbatim>\<open>stop\<close>: \<^verbatim>\<open>try: self._ws.close() finally: self._ws = None\<close>. The \<^verbatim>\<open>finally\<close> clause
  clears the field and lets an exception of \<^verbatim>\<open>close()\<close> go on to the caller.
\<close>

definition ws_close :: "websocket \<Rightarrow> (exn + unit) \<times> websocket" where
  "ws_close sock =
     (case close_raises sock of
        Some e \<Rightarrow> (Inl e, sock)
      | None \<Rightarrow> (Inr (), sock\<lparr>is_closed := True\<rparr>))"

definition stop :: "dashscope_backend \<Rightarrow> (exn + unit) \<times> dashscope_backend" where
  "stop self =
     (case ws self of
        None \<Rightarrow> (Inr (), self)
      | Some sock \<Rightarrow>
          (let (r, sock') = ws_close sock
           in (r, self\<lparr>ws := None, dropped := dropped self @ [sock']\<rparr>)))"

section \<open>MockTranslatorBackend\<close>

record mock_backend =
  buffer :: int
  samplerate :: int

definition mock_prefix :: pystr where
  "mock_prefix = ascii ''[Mock] '' @ [0x5DF2, 0x5904, 0x7406, 0x7EA6] @ ascii '' ''"

definition mock_suffix :: pystr where
  "mock_suffix = ascii '' '' @ [0x79D2, 0x97F3, 0x9891]"

definition mock_init :: "int \<Rightarrow> mock_backend" where
  "mock_init rate = \<lparr>buffer = 0, samplerate = rate\<rparr>"

definition mock_start :: "mock_backend \<Rightarrow> mock_backend" where
  "mock_start self = self\<lparr>buffer := 0\<rparr>"

definition mock_send_audio :: "mock_backend \<Rightarrow> bytes \<Rightarrow> mock_backend" where
  "mock_send_audio self pcm_chunk = self\<lparr>buffer := buffer self + int (length pcm_chunk)\<rparr>"

text \<open>
  \<^verbatim>\<open>seconds = self._buffer / (self._samplerate * 2)\<close> is Python's true division: it raises
  \<^verbatim>\<open>ZeroDivisionError\<close> for a zero divisor, before the counter is reset. The quotient is
  kept exact here; its rounding to a float is part of \<open>format_1f\<close>.
\<close>

definition mock_poll_translations :: "pylib \<Rightarrow> mock_backend \<Rightarrow> (exn + pystr list) \<times> mock_backend" where
  "mock_poll_translations L self =
     (if buffer self = 0 then (Inr [], self)
      else if samplerate self * 2 = 0 then (Inl ZeroDivisionError, self)
      else
        (let seconds = of_int (buffer self) / of_int (samplerate self * 2)
         in (Inr [mock_prefix @ format_1f L seconds @ mock_suffix], self\<lparr>buffer := 0\<rparr>)))"

definition mock_flush :: "mock_backend \<Rightarrow> mock_backend" where
  "mock_flush self = self\<lparr>buffer := 0\<rparr>"

definition mock_stop :: "mock_backend \<Rightarrow> mock_backend" where
  "mock_stop self = self\<lparr>buffer := 0\<rparr>"

section \<open>TranslationWorker\<close>

text \<open>The two implementations of the \<^verbatim>\<open>TranslationBackend\<close> protocol, and their methods.\<close>

datatype backend = DashScope dashscope_backend | Mock mock_backend

fun backend_start :: "pylib \<Rightarrow> int \<Rightarrow> backend \<Rightarrow> (exn + unit) \<times> backend" where
  "backend_start L now (DashScope b) = (let (r, b') = start L now b in (r, DashScope b'))"
| "backend_start L now (Mock m) = (Inr (), Mock (mock_start m))"

fun backend_send_audio :: "int \<Rightarrow> backend \<Rightarrow> bytes \<Rightarrow> (exn + unit) \<times> backend" where
  "backend_send_audio now (DashScope b) pcm_chunk =
     (let (r, b') = send_audio now b pcm_chunk in (r, DashScope b'))"
| "backend_send_audio now (Mock m) pcm_chunk = (Inr (), Mock (mock_send_audio m pcm_chunk))"

fun backend_poll_translations :: "pylib \<Rightarrow> backend \<Rightarrow> (exn + json list) \<times> backend" where
  "backend_poll_translations L (DashScope b) =
     (let (r, b') = poll_translations L b in (r, DashScope b'))"
| "backend_poll_translations L (Mock m) =
     (let (r, m') = mock_poll_translations L m in (map_sum id (map JStr) r, Mock m'))"

fun backend_flush :: "backend \<Rightarrow> (exn + unit) \<times> backend" where
  "backend_flush (DashScope b) = (let (r, b') = flush b in (r, DashScope b'))"
| "backend_flush (Mock m) = (Inr (), Mock (mock_flush m))"

fun backend_stop :: "backend \<Rightarrow> (exn + unit) \<times> backend" where
  "backend_stop (DashScope b) = (let (r, b') = stop b in (r, DashScope b'))"
| "backend_stop (Mock m) = (Inr (), Mock (mock_stop m))"

text \<open>
  The worker. \<open>signals\<close> are the Qt signals emitted, in order. Two fields are not in the
  class: \<open>backend_calls\<close> logs the backend methods \<^verbatim>\<open>run\<close> invokes, and
  \<open>released_backend\<close> is the backend object as \<^verbatim>\<open>run\<close> leaves it when it drops its
  reference.
\<close>

datatype signal = Subtitle_ready pystr | Error_occurred pystr

datatype backend_call =
  Call_start | Call_send_audio | Call_poll_translations | Call_flush | Call_stop

record translation_worker =
  worker_config :: dashscope_config
  audio_samplerate :: int
  worker_backend :: "backend option"
  last_caption :: pystr
  signals :: "signal list"
  backend_calls :: "backend_call list"
  released_backend :: "backend option"

text \<open>
  One round of \<^verbatim>\<open>for chunk in stream_pcm_chunks()\<close>: the chunk the capture yields, whether
  the stop event is set when the round tests it, and the clock when the chunk is sent.
  The generator itself never ends; a finite run of it ends in the way \<open>stream_end\<close> says.
\<close>

record audio_tick =
  chunk :: bytes
  stop_is_set :: bool
  clock :: int

datatype stream_end = Stream_ends | Stream_raises exn

definition create_backend :: "pylib \<Rightarrow> translation_worker \<Rightarrow> exn + backend" where
  "create_backend L self =
     (if api_key (worker_config self) \<noteq> [] then
        map_sum id DashScope (dashscope_init L (worker_config self) (audio_samplerate self))
      else Inr (Mock (mock_init (audio_samplerate self))))"

text \<open>\<^verbatim>\<open>(caption or "").strip()\<close>: only a str has \<^verbatim>\<open>strip\<close>.\<close>

definition normalize_caption :: "json \<Rightarrow> exn + pystr" where
  "normalize_caption caption =
     (case py_or caption (JStr []) of JStr s \<Rightarrow> Inr (strip s) | _ \<Rightarrow> Inl AttributeError)"

definition str_exc :: "pylib \<Rightarrow> exn \<Rightarrow> pystr" where
  "str_exc L e =
     (case e of RuntimeError m \<Rightarrow> m | Transport_error m \<Rightarrow> m | _ \<Rightarrow> exc_message L e)"

definition log_call :: "backend_call \<Rightarrow> translation_worker \<Rightarrow> translation_worker" where
  "log_call c self = self\<lparr>backend_calls := backend_calls self @ [c]\<rparr>"

text \<open>\<^verbatim>\<open>for caption in backend.poll_translations()\<close>.\<close>

fun emit_captions :: "translation_worker \<Rightarrow> json list \<Rightarrow> exn option \<times> translation_worker" where
  "emit_captions self [] = (None, self)"
| "emit_captions self (caption # captions) =
     (case normalize_caption caption of
        Inl e \<Rightarrow> (Some e, self)
      | Inr normalized \<Rightarrow>
          if normalized = [] \<or> normalized = last_caption self then emit_captions self captions
          else emit_captions
                 (self\<lparr>last_caption := normalized,
                       signals := signals self @ [Subtitle_ready normalized]\<rparr>)
                 captions)"

text \<open>The \<^verbatim>\<open>for\<close> loop of \<^verbatim>\<open>run\<close>: the exception that ended it, if one did.\<close>

fun stream_loop ::
  "pylib \<Rightarrow> translation_worker \<Rightarrow> backend \<Rightarrow> audio_tick list \<Rightarrow> stream_end \<Rightarrow>
   exn option \<times> translation_worker \<times> backend" where
  "stream_loop L self b [] Stream_ends = (None, self, b)"
| "stream_loop L self b [] (Stream_raises e) = (Some e, self, b)"
| "stream_loop L self b (t # ticks) fin =
     (if stop_is_set t then (None, self, b)
      else
        (case backend_send_audio (clock t) b (chunk t) of
           (Inl e, b1) \<Rightarrow> (Some e, log_call Call_send_audio self, b1)
         | (Inr u, b1) \<Rightarrow>
             (case backend_poll_translations L b1 of
                (Inl e, b2) \<Rightarrow>
                  (Some e, log_call Call_poll_translations (log_call Call_send_audio self), b2)
              | (Inr captions, b2) \<Rightarrow>
                  (case emit_captions
                          (log_call Call_poll_translations (log_call Call_send_audio self))
                          captions of
                     (Some e, self') \<Rightarrow> (Some e, self', b2)
                   | (None, self') \<Rightarrow> stream_loop L self' b2 ticks fin))))"

text \<open>
  \<^verbatim>\<open>run\<close>. The \<^verbatim>\<open>try\<close> block holds the creation and start of the backend, the loop,
  and after the loop \<^verbatim>\<open>backend.flush()\<close> and \<^verbatim>\<open>backend.stop()\<close>; \<^verbatim>\<open>except Exception\<close>
  emits \<^verbatim>\<open>error_occurred\<close>; \<^verbatim>\<open>finally\<close> clears \<^verbatim>\<open>_backend\<close> and \<^verbatim>\<open>_last_caption\<close>.
  \<open>now\<close> is the clock when \<^verbatim>\<open>start\<close> sends the session update.
\<close>

definition run_try ::
  "pylib \<Rightarrow> int \<Rightarrow> translation_worker \<Rightarrow> audio_tick list \<Rightarrow> stream_end \<Rightarrow>
   exn option \<times> translation_worker \<times> backend option" where
  "run_try L now self ticks fin =
     (case create_backend L self of
        Inl e \<Rightarrow> (Some e, self, None)
      | Inr b0 \<Rightarrow>
          (case backend_start L now b0 of
             (Inl e, b1) \<Rightarrow>
               (Some e, log_call Call_start (self\<lparr>worker_backend := Some b0\<rparr>), Some b1)
           | (Inr u, b1) \<Rightarrow>
               (case stream_loop L
                       (log_call Call_start (self\<lparr>worker_backend := Some b0\<rparr>)
                          \<lparr>last_caption := []\<rparr>)
                       b1 ticks fin of
                  (Some e, self1, b2) \<Rightarrow> (Some e, self1, Some b2)
                | (None, self1, b2) \<Rightarrow>
                    (case backend_flush b2 of
                       (Inl e, b3) \<Rightarrow> (Some e, log_call Call_flush self1, Some b3)
                     | (Inr u, b3) \<Rightarrow>
                         (case backend_stop b3 of
                            (Inl e, b4) \<Rightarrow>
                              (Some e, log_call Call_stop (log_call Call_flush self1), Some b4)
                          | (Inr u, b4) \<Rightarrow>
                              (None, log_call Call_stop (log_call Call_flush self1),
                               Some b4))))))"

definition run ::
  "pylib \<Rightarrow> int \<Rightarrow> translation_worker \<Rightarrow> audio_tick list \<Rightarrow> stream_end \<Rightarrow>
   translation_worker" where
  "run L now self ticks fin =
     (case run_try L now self ticks fin of
        (err, self1, b) \<Rightarrow>
          (let self2 =
                 (case err of
                    None \<Rightarrow> self1
                  | Some e \<Rightarrow>
                      self1\<lparr>signals := signals self1 @ [Error_occurred (str_exc L e)]\<rparr>)
           in self2\<lparr>worker_backend := None, last_caption := [], released_backend := b\<rparr>))"

section \<open>Audio conversion (audio.py, \<^verbatim>\<open>_float_to_pcm16\<close>)\<close>

text \<open>
  A sample is a float: a finite value (a rational number), an infinity, or NaN.
  \<^verbatim>\<open>np.clip(data, -1.0, 1.0)\<close> is \<^verbatim>\<open>minimum(maximum(x, -1.0), 1.0)\<close>: it is exact, brings
  an infinity to the bound, and leaves NaN as it is.
\<close>

datatype sample = Finite rat | PosInf | NegInf | NaN

fun np_maximum :: "sample \<Rightarrow> rat \<Rightarrow> sample" where
  "np_maximum (Finite x) lo = Finite (max x lo)"
| "np_maximum PosInf lo = PosInf"
| "np_maximum NegInf lo = Finite lo"
| "np_maximum NaN lo = NaN"

fun np_minimum :: "sample \<Rightarrow> rat \<Rightarrow> sample" where
  "np_minimum (Finite x) hi = Finite (min x hi)"
| "np_minimum PosInf hi = Finite hi"
| "np_minimum NegInf hi = NegInf"
| "np_minimum NaN hi = NaN"

definition clip :: "sample \<Rightarrow> rat \<Rightarrow> rat \<Rightarrow> sample" where
  "clip x lo hi = np_minimum (np_maximum x lo) hi"

definition int16_max :: rat where
  "int16_max = 32767"

text \<open>
  \<^verbatim>\<open>clipped * np.iinfo(np.int16).max\<close>: the product of a finite value is rounded to the
  array's float type, which is the parameter \<open>rnd\<close>.
\<close>

fun times_int16_max :: "(rat \<Rightarrow> rat) \<Rightarrow> sample \<Rightarrow> sample" where
  "times_int16_max rnd (Finite c) = Finite (rnd (c * int16_max))"
| "times_int16_max rnd PosInf = PosInf"
| "times_int16_max rnd NegInf = NegInf"
| "times_int16_max rnd NaN = NaN"

text \<open>
  \<^verbatim>\<open>astype(np.int16)\<close> drops the fraction of a value that fits in 16 bits. For NaN, an
  infinity or a value out of range the cast is not defined by the language: the result
  is what the platform gives, which is the parameter \<open>cast\<close>.
\<close>

definition trunc_zero :: "rat \<Rightarrow> int" where
  "trunc_zero x = (if x < 0 then \<lceil>x\<rceil> else \<lfloor>x\<rfloor>)"

fun astype_int16 :: "(sample \<Rightarrow> 16 word) \<Rightarrow> sample \<Rightarrow> 16 word" where
  "astype_int16 cast (Finite y) =
     (if - 32768 \<le> trunc_zero y \<and> trunc_zero y \<le> 32767 then word_of_int (trunc_zero y)
      else cast (Finite y))"
| "astype_int16 cast PosInf = cast PosInf"
| "astype_int16 cast NegInf = cast NegInf"
| "astype_int16 cast NaN = cast NaN"

definition pcm16_sample :: "(rat \<Rightarrow> rat) \<Rightarrow> (sample \<Rightarrow> 16 word) \<Rightarrow> sample \<Rightarrow> 16 word" where
  "pcm16_sample rnd cast x = astype_int16 cast (times_int16_max rnd (clip x (- 1) 1))"

definition int_data ::
  "(rat \<Rightarrow> rat) \<Rightarrow> (sample \<Rightarrow> 16 word) \<Rightarrow> sample list \<Rightarrow> 16 word list" where
  "int_data rnd cast data = map (pcm16_sample rnd cast) data"

text \<open>\<^verbatim>\<open>tobytes\<close> writes each sample low byte first.\<close>

definition tobytes :: "16 word list \<Rightarrow> bytes" where
  "tobytes samples = concat (map (\<lambda>w. [ucast w, ucast (drop_bit 8 w)]) samples)"

definition float_to_pcm16 ::
  "(rat \<Rightarrow> rat) \<Rightarrow> (sample \<Rightarrow> 16 word) \<Rightarrow> sample list \<Rightarrow> bytes" where
  "float_to_pcm16 rnd cast data = tobytes (int_data rnd cast data)"

subsection \<open>The conversion as the specification words it\<close>

text \<open>A value lies in \<open>[-1, 1]\<close>.\<close>

fun within_unit :: "sample \<Rightarrow> bool" where
  "within_unit (Finite x) = (- 1 \<le> x \<and> x \<le> 1)"
| "within_unit s = False"

text \<open>
  The 16-bit value of one sample: clip to \<open>[-1, 1]\<close>, scale by 32767, truncate. NaN
  cannot be clipped; its value is the platform's.
\<close>

fun spec_pcm16 :: "(rat \<Rightarrow> rat) \<Rightarrow> (sample \<Rightarrow> 16 word) \<Rightarrow> sample \<Rightarrow> int" where
  "spec_pcm16 rnd cast (Finite x) = trunc_zero (rnd (min (max x (- 1)) 1 * 32767))"
| "spec_pcm16 rnd cast PosInf = trunc_zero (rnd (1 * 32767))"
| "spec_pcm16 rnd cast NegInf = trunc_zero (rnd (- 1 * 32767))"
| "spec_pcm16 rnd cast NaN = sint (cast NaN)"

text \<open>Reading PCM bytes back as signed 16-bit samples, low byte first.\<close>

fun frombuffer_int16 :: "bytes \<Rightarrow> int list" where
  "frombuffer_int16 (lo # hi # rest) =
     sint (ucast lo OR push_bit 8 (ucast hi) :: 16 word) # frombuffer_int16 rest"
| "frombuffer_int16 rest = []"

section \<open>Example values\<close>

text \<open>
  Stand-ins for the library functions, used to run the model on examples: a serialiser
  and \<^verbatim>\<open>str\<close> that give fixed texts, and a one-decimal format that rounds the exact
  value of a non-negative number.
\<close>

definition example_format_1f :: "rat \<Rightarrow> pystr" where
  "example_format_1f x =
     (let tenths = \<lfloor>x * 10 + 1 / 2\<rfloor>
      in str_int (tenths div 10) @ ascii ''.'' @ str_int (tenths mod 10))"

definition example_socket :: websocket where
  "example_socket =
     \<lparr>url = [], header = [], timeout = None, incoming = [], sent = [],
      send_raises = None, close_raises = None, is_closed = False\<rparr>"

definition example_lib :: pylib where
  "example_lib =
     \<lparr>json_dumps = (\<lambda>v. ascii ''{...}''),
      py_str = (\<lambda>v. ascii ''...''),
      format_1f = example_format_1f,
      exc_message = (\<lambda>e. ascii ''...''),
      create_connection = (\<lambda>u h. Inr (example_socket\<lparr>url := u, header := h\<rparr>)),
      websocket_imported = True\<rparr>"

definition example_backend :: dashscope_backend where
  "example_backend =
     \<lparr>config = \<lparr>api_key = ascii ''sk-test'', model = ascii ''qwen3-livetranslate-flash-realtime'',
                 target_language = ascii ''zh''\<rparr>,
      ds_samplerate = 16000, ws = None, event_counter = 0, dropped = []\<rparr>"

definition example_delta :: json where
  "example_delta =
     JObj [(ascii ''type'', JStr (ascii ''response.audio_transcript.delta'')),
           (ascii ''transcript'', JStr (ascii ''hello''))]"

definition example_error :: "(pystr \<times> json) list" where
  "example_error =
     [(ascii ''type'', JStr (ascii ''error'')),
      (ascii ''message'', JStr (ascii ''quota exceeded''))]"

text \<open>
  A worker with an API key, a service whose first message is the error event, and one
  round of the audio loop.
\<close>

definition example_worker :: translation_worker where
  "example_worker =
     \<lparr>worker_config = config example_backend, audio_samplerate = 16000,
      worker_backend = None, last_caption = [], signals = [], backend_calls = [],
      released_backend = None\<rparr>"

definition example_failing_lib :: pylib where
  "example_failing_lib =
     example_lib\<lparr>create_connection :=
       (\<lambda>u h. Inr (example_socket\<lparr>url := u, header := h,
                                  incoming := [Message (JObj example_error)]\<rparr>))\<rparr>"

definition example_tick :: audio_tick where
  "example_tick = \<lparr>chunk = [0x00, 0x01, 0xFF, 0x7F], stop_is_set = False, clock = 1700000000123\<rparr>"

section \<open>Auxiliary notions of the claims\<close>

text \<open>
  The \<^verbatim>\<open>input_audio_buffer.append\<close> message as the specification describes it: an event
  identifier \<open>event_<epoch_millis>_<counter>\<close>, the type, and the base64 text of the chunk.
\<close>

definition spec_audio_message :: "int \<Rightarrow> int \<Rightarrow> bytes \<Rightarrow> json" where
  "spec_audio_message now counter pcm_chunk =
     JObj [(ascii ''event_id'', JStr (ascii ''event_'' @ str_int now @ ascii ''_'' @ str_int counter)),
           (ascii ''type'', JStr (ascii ''input_audio_buffer.append'')),
           (ascii ''audio'', JStr (b64encode pcm_chunk))]"

text \<open>A poll of the mock backend returns text: it returns a non-empty list.\<close>

definition returns_text :: "(exn + pystr list) \<Rightarrow> bool" where
  "returns_text r = (case r of Inr (t # ts) \<Rightarrow> True | _ \<Rightarrow> False)"

section \<open>String lemmas\<close>

lemma digits_small: "n < 10 \<Longrightarrow> digits n = [48 + n]"
  by (subst digits.simps) simp

lemma digits_large: "\<not> n < 10 \<Longrightarrow> digits n = digits (n div 10) @ [48 + n mod 10]"
  by (subst digits.simps) simp

lemma startswith_prefix: "startswith s t \<longleftrightarrow> prefix t s"
  unfolding startswith_def prefix_def
  by (metis append_eq_conv_conj)

lemma endswith_suffix: "endswith s t \<longleftrightarrow> suffix t s"
proof
  assume "endswith s t"
  then have "drop (length s - length t) s = t" by (simp add: endswith_def)
  then show "suffix t s" by (metis suffix_drop)
next
  assume "suffix t s"
  then obtain zs where "s = zs @ t" by (auto simp: suffix_def)
  then show "endswith s t" by (simp add: endswith_def)
qed

lemma endswith_newline: "P \<noteq> [] \<Longrightarrow> endswith P [newline] \<longleftrightarrow> last P = newline"
  by (cases P rule: rev_cases) (auto simp: endswith_def)

section \<open>The reconciler follows the decision policy\<close>

lemma overlap_scan_le: "overlap_scan P F n \<le> n"
  by (induction n) auto

lemma overlap_scan_match:
  "n \<le> min (length P) (length F) \<Longrightarrow>
   drop (length P - overlap_scan P F n) P = take (overlap_scan P F n) F"
proof (induction n)
  case 0
  then show ?case by simp
next
  case (Suc n)
  show ?case
  proof (cases "startswith F (drop (length P - Suc n) P)")
    case True
    with Suc.prems show ?thesis by (simp add: startswith_def)
  next
    case False
    with Suc show ?thesis by simp
  qed
qed

lemma overlap_scan_greatest:
  "k \<le> n \<Longrightarrow> n \<le> min (length P) (length F) \<Longrightarrow>
   drop (length P - k) P = take k F \<Longrightarrow> k \<le> overlap_scan P F n"
proof (induction n)
  case 0
  then show ?case by simp
next
  case (Suc n)
  show ?case
  proof (cases "k = Suc n")
    case True
    with Suc.prems have "startswith F (drop (length P - Suc n) P)"
      by (simp add: startswith_def)
    with True show ?thesis by simp
  next
    case False
    with Suc.prems have "k \<le> n" by simp
    with Suc have "k \<le> overlap_scan P F n" by simp
    moreover have "overlap_scan P F n \<le> overlap_scan P F (Suc n)"
      using overlap_scan_le [of P F n] by simp
    ultimately show ?thesis by simp
  qed
qed

lemma longest_overlap_spec: "longest_overlap P F = spec_overlap P F"
proof -
  let ?m = "min (length P) (length F)"
  let ?S = "{k \<in> {0..?m}. drop (length P - k) P = take k F}"
  have fin: "finite ?S" by simp
  have mem: "longest_overlap P F \<in> ?S"
    using overlap_scan_le [of P F ?m] overlap_scan_match [of ?m P F]
    by (simp add: longest_overlap_def)
  have ub: "\<And>k. k \<in> ?S \<Longrightarrow> k \<le> longest_overlap P F"
    using overlap_scan_greatest [of _ ?m P F]
    by (simp add: longest_overlap_def)
  show ?thesis
    unfolding spec_overlap_def
    using Max_eqI [OF fin ub mem] by simp
qed


lemma prefix_drop_nonempty: "prefix P F \<Longrightarrow> F \<noteq> P \<Longrightarrow> drop (length P) F \<noteq> []"
  by (auto simp: prefix_def)

text \<open>
  Claim C1. For every previous transcript \<open>P\<close> and every fragment whose trimmed form
  \<open>F\<close> is non-empty, one call of \<open>add_history_entry\<close> leaves the transcript and the
  display exactly as the six rules, taken in order, prescribe: \<open>P\<close> empty gives \<open>P = F\<close>
  with \<open>F\<close> shown; \<open>F = P\<close> changes nothing; \<open>F\<close> starting with \<open>P\<close> appends the rest of
  \<open>F\<close> and sets \<open>P = F\<close>; \<open>P\<close> ending with \<open>F\<close> changes nothing; otherwise the greatest
  overlap \<open>k\<close> of a suffix of \<open>P\<close> with a prefix of \<open>F\<close>, when positive, appends \<open>F\<close>
  without its first \<open>k\<close> characters; and with no overlap a newline and \<open>F\<close> are appended
  (no newline when \<open>P\<close> already ends with one). The scan of \<open>_longest_overlap\<close> from
  \<open>min |P| |F|\<close> down to 1 computes that greatest overlap.
\<close>

theorem add_history_entry_refines:
  assumes "strip text \<noteq> []"
  shows "add_history_entry self text =
     self\<lparr>transcript_text := fst (spec_reconcile (transcript_text self) (strip text)),
          window_calls := window_calls self @
            spec_display (transcript_text self)
              (snd (spec_reconcile (transcript_text self) (strip text)))\<rparr>"
proof -
  let ?P = "transcript_text self" and ?F = "strip text"
  consider (r1) "?P = []"
    | (r2) "?P \<noteq> []" "?F = ?P"
    | (r3) "?P \<noteq> []" "?F \<noteq> ?P" "prefix ?P ?F"
    | (r4) "?P \<noteq> []" "?F \<noteq> ?P" "\<not> prefix ?P ?F" "suffix ?F ?P"
    | (r5) "?P \<noteq> []" "?F \<noteq> ?P" "\<not> prefix ?P ?F" "\<not> suffix ?F ?P" "spec_overlap ?P ?F > 0"
    | (r6) "?P \<noteq> []" "?F \<noteq> ?P" "\<not> prefix ?P ?F" "\<not> suffix ?F ?P" "spec_overlap ?P ?F = 0"
    by blast
  then show ?thesis
  proof cases
    case r1
    with assms show ?thesis
      by (simp add: add_history_entry_def spec_reconcile_def spec_display_def Let_def)
  next
    case r2
    with assms show ?thesis
      by (simp add: add_history_entry_def spec_reconcile_def spec_display_def Let_def)
  next
    case r3
    with assms prefix_drop_nonempty [of ?P ?F] show ?thesis
      by (simp add: add_history_entry_def spec_reconcile_def spec_display_def Let_def
          startswith_prefix)
  next
    case r4
    with assms show ?thesis
      by (simp add: add_history_entry_def spec_reconcile_def spec_display_def Let_def
          startswith_prefix endswith_suffix)
  next
    case r5
    with assms show ?thesis
      by (simp add: add_history_entry_def spec_reconcile_def spec_display_def Let_def
          startswith_prefix endswith_suffix longest_overlap_spec)
  next
    case r6
    then have "\<not> endswith ?P ?F" and "endswith ?P [newline] \<longleftrightarrow> last ?P = newline"
      using endswith_newline [of ?P] by (simp_all add: endswith_suffix [of ?P ?F])
    with r6 assms show ?thesis
      by (simp add: add_history_entry_def spec_reconcile_def spec_display_def Let_def
          startswith_prefix longest_overlap_spec)
  qed
qed


theorem add_history_entry_refines_witness:
  "strip (ascii '' sat on the mat  '') \<noteq> [] \<and>
   spec_reconcile (ascii ''the cat sat'') (strip (ascii '' sat on the mat  '')) =
     (ascii ''the cat sat on the mat'', ascii '' on the mat'')"
proof -
  let ?self = "\<lparr>transcript_text = ascii ''the cat sat'', window_calls = []\<rparr>"
  let ?text = "ascii '' sat on the mat  ''"
  have ne: "strip ?text \<noteq> []"
    by (simp add: ascii_def strip_def isspace_def)
  have run: "add_history_entry ?self ?text =
      \<lparr>transcript_text = ascii ''the cat sat on the mat'',
       window_calls = [Append_transcript (ascii '' on the mat'')]\<rparr>"
    by (simp add: add_history_entry_def ascii_def strip_def isspace_def startswith_def
        endswith_def longest_overlap_def Let_def)
  have "transcript_text (add_history_entry ?self ?text) =
      fst (spec_reconcile (ascii ''the cat sat'') (strip ?text))"
    and "window_calls (add_history_entry ?self ?text) =
      spec_display (ascii ''the cat sat'') (snd (spec_reconcile (ascii ''the cat sat'') (strip ?text)))"
    using add_history_entry_refines [OF ne, of ?self] by simp_all
  with run have "fst (spec_reconcile (ascii ''the cat sat'') (strip ?text)) =
      ascii ''the cat sat on the mat''"
    and d: "spec_display (ascii ''the cat sat'') (snd (spec_reconcile (ascii ''the cat sat'') (strip ?text))) =
      [Append_transcript (ascii '' on the mat'')]"
    by simp_all
  moreover from d have "snd (spec_reconcile (ascii ''the cat sat'') (strip ?text)) = ascii '' on the mat''"
    by (simp add: spec_display_def ascii_def split: if_splits)
  ultimately show ?thesis using ne by (simp add: prod_eq_iff)
qed

section \<open>The transcript only grows\<close>

lemma add_history_entry_prefix:
  "prefix (transcript_text self) (transcript_text (add_history_entry self text))"
  by (simp add: add_history_entry_def Let_def startswith_prefix)

lemma add_history_entries_prefix:
  "prefix (transcript_text self) (transcript_text (add_history_entries self texts))"
  unfolding add_history_entries_def
proof (induction texts arbitrary: self)
  case Nil
  show ?case by simp
next
  case (Cons t ts)
  have "prefix (transcript_text self) (transcript_text (add_history_entry self t))"
    by (rule add_history_entry_prefix)
  also have "prefix \<dots> (transcript_text (foldl add_history_entry (add_history_entry self t) ts))"
    by (rule Cons.IH)
  finally show ?case by simp
qed

text \<open>
  Claim C2. One call of \<open>add_history_entry\<close> leaves the transcript unchanged or extends it:
  the old transcript is a prefix of the new one, so no character is removed and the length
  does not decrease; the same holds from the start to the end of any sequence of calls.
\<close>

theorem transcript_monotone:
  "prefix (transcript_text self) (transcript_text (add_history_entry self text)) \<and>
   length (transcript_text self) \<le> length (transcript_text (add_history_entry self text)) \<and>
   prefix (transcript_text self) (transcript_text (add_history_entries self texts)) \<and>
   length (transcript_text self) \<le> length (transcript_text (add_history_entries self texts))"
  using add_history_entry_prefix [of self "text"] add_history_entries_prefix [of self texts]
  by (simp add: prefix_length_le)

theorem transcript_monotone_witness:
  "prefix (ascii ''hello'')
     (transcript_text
        (add_history_entry \<lparr>transcript_text = ascii ''hello'', window_calls = []\<rparr>
           (ascii ''hello world''))) \<and>
   transcript_text
     (add_history_entries \<lparr>transcript_text = ascii ''hello'', window_calls = []\<rparr>
        [ascii ''hello world'', ascii ''world'', ascii ''Hi'']) =
   ascii ''hello world'' @ newline # ascii ''Hi''"
proof -
  let ?self = "\<lparr>transcript_text = ascii ''hello'', window_calls = []\<rparr>"
  have "transcript_text (add_history_entries ?self [ascii ''hello world'', ascii ''world'', ascii ''Hi'']) =
      ascii ''hello world'' @ newline # ascii ''Hi''"
    by (simp add: add_history_entries_def add_history_entry_def ascii_def strip_def isspace_def
        startswith_def endswith_def longest_overlap_def newline_def Let_def)
  then show ?thesis
    using transcript_monotone [of ?self "ascii ''hello world''" "[]"] by simp
qed

section \<open>Blank fragments\<close>

text \<open>
  Claim C9. A text that is empty after stripping whitespace (the empty string, or
  whitespace only) leaves the controller as it was: the transcript is not modified and
  no call reaches the window.
\<close>

theorem blank_entry_ignored:
  "strip text = [] \<Longrightarrow> add_history_entry self text = self"
  by (simp add: add_history_entry_def)

theorem blank_entry_ignored_witness:
  "strip (ascii '' '' @ [0x3000, 0x9, 0xA]) = [] \<and>
   add_history_entry \<lparr>transcript_text = ascii ''done.'', window_calls = []\<rparr>
       (ascii '' '' @ [0x3000, 0x9, 0xA]) =
     \<lparr>transcript_text = ascii ''done.'', window_calls = []\<rparr> \<and>
   strip [] = [] \<and>
   add_history_entry \<lparr>transcript_text = [], window_calls = []\<rparr> [] =
     \<lparr>transcript_text = [], window_calls = []\<rparr>"
proof -
  have a: "strip (ascii '' '' @ [0x3000, 0x9, 0xA]) = []"
    by (simp add: ascii_def strip_def isspace_def)
  have b: "strip [] = []"
    by (simp add: strip_def)
  show ?thesis
    using a b blank_entry_ignored [OF a] blank_entry_ignored [OF b] by simp
qed

section \<open>The realtime backend\<close>

lemma send_audio_noop:
  "ws self = None \<or> pcm_chunk = [] \<Longrightarrow> send_audio now self pcm_chunk = (Inr (), self)"
  by (auto simp: send_audio_def)

lemma send_audio_sends:
  assumes "ws self = Some sock" "pcm_chunk \<noteq> []" "send_raises sock = None"
  shows "send_audio now self pcm_chunk =
    (Inr (), self\<lparr>event_counter := event_counter self + 1,
                   ws := Some (sock\<lparr>sent := sent sock @
                      [spec_audio_message now (event_counter self + 1) pcm_chunk]\<rparr>)\<rparr>)"
  using assms
  by (simp add: send_audio_def next_event_id_def send_json_def Let_def event_id_def
      spec_audio_message_def)

text \<open>
  Claim C7. \<open>send_audio\<close> returns at once, with the object unchanged and nothing sent,
  when there is no socket or the chunk is empty. With a socket, a non-empty chunk and a
  transport that accepts the send, it sends exactly one message: the
  \<^verbatim>\<open>input_audio_buffer.append\<close> event whose \<open>audio\<close> is the base64 text of the chunk and
  whose identifier is \<open>event_<now>_<counter + 1>\<close>, and the counter becomes \<open>counter + 1\<close>.
  Two successive sends carry the counters \<open>counter + 1\<close> and \<open>counter + 2\<close>.
\<close>

theorem send_audio_contract:
  "(ws self = None \<or> pcm_chunk = [] \<longrightarrow> send_audio now self pcm_chunk = (Inr (), self)) \<and>
   (ws self = Some sock \<and> pcm_chunk \<noteq> [] \<and> send_raises sock = None \<longrightarrow>
      send_audio now self pcm_chunk =
        (Inr (), self\<lparr>event_counter := event_counter self + 1,
                       ws := Some (sock\<lparr>sent := sent sock @
                          [spec_audio_message now (event_counter self + 1) pcm_chunk]\<rparr>)\<rparr>)) \<and>
   (ws self = Some sock \<and> pcm_chunk \<noteq> [] \<and> chunk' \<noteq> [] \<and> send_raises sock = None \<longrightarrow>
      map_option sent (ws (snd (send_audio now' (snd (send_audio now self pcm_chunk)) chunk'))) =
        Some (sent sock @
          [spec_audio_message now (event_counter self + 1) pcm_chunk,
           spec_audio_message now' (event_counter self + 2) chunk']) \<and>
      event_counter self + 1 < event_counter self + 2)"
proof (intro conjI impI)
  assume "ws self = None \<or> pcm_chunk = []"
  then show "send_audio now self pcm_chunk = (Inr (), self)" by (rule send_audio_noop)
next
  assume "ws self = Some sock \<and> pcm_chunk \<noteq> [] \<and> send_raises sock = None"
  then show "send_audio now self pcm_chunk =
        (Inr (), self\<lparr>event_counter := event_counter self + 1,
                       ws := Some (sock\<lparr>sent := sent sock @
                          [spec_audio_message now (event_counter self + 1) pcm_chunk]\<rparr>)\<rparr>)"
    by (simp add: send_audio_sends)
next
  assume a: "ws self = Some sock \<and> pcm_chunk \<noteq> [] \<and> chunk' \<noteq> [] \<and> send_raises sock = None"
  let ?sock1 = "sock\<lparr>sent := sent sock @ [spec_audio_message now (event_counter self + 1) pcm_chunk]\<rparr>"
  let ?s1 = "self\<lparr>event_counter := event_counter self + 1, ws := Some ?sock1\<rparr>"
  from a have 1: "send_audio now self pcm_chunk = (Inr (), ?s1)" by (simp add: send_audio_sends)
  have "send_audio now' ?s1 chunk' =
     (Inr (), ?s1\<lparr>event_counter := event_counter ?s1 + 1,
                   ws := Some (?sock1\<lparr>sent := sent ?sock1 @
                      [spec_audio_message now' (event_counter ?s1 + 1) chunk']\<rparr>)\<rparr>)"
    using a by (intro send_audio_sends) simp_all
  with 1 show "map_option sent (ws (snd (send_audio now' (snd (send_audio now self pcm_chunk)) chunk'))) =
        Some (sent sock @
          [spec_audio_message now (event_counter self + 1) pcm_chunk,
           spec_audio_message now' (event_counter self + 2) chunk'])"
    by (simp add: add.commute)
next
  show "event_counter self + 1 < event_counter self + 2" by simp
qed

text \<open>
  Claim C5, as amended. After \<open>stop\<close> no socket is held, in every case. Without a
  socket \<open>stop\<close> does nothing, and a second \<open>stop\<close> does nothing and raises nothing.
  With a socket, \<open>stop\<close> calls \<open>close\<close> on it; when \<open>close\<close> raises, the
  exception is not swallowed: \<open>stop\<close> raises it, after the field is cleared.
\<close>

theorem stop_contract:
  "ws (snd (stop self)) = None \<and>
   (ws self = None \<longrightarrow> stop self = (Inr (), self)) \<and>
   stop (snd (stop self)) = (Inr (), snd (stop self)) \<and>
   (ws self = Some sock \<and> close_raises sock = None \<longrightarrow>
      stop self = (Inr (), self\<lparr>ws := None, dropped := dropped self @ [sock\<lparr>is_closed := True\<rparr>]\<rparr>)) \<and>
   (ws self = Some sock \<and> close_raises sock = Some e \<longrightarrow>
      stop self = (Inl e, self\<lparr>ws := None, dropped := dropped self @ [sock]\<rparr>))"
  by (auto simp: stop_def ws_close_def split: option.splits prod.splits)

text \<open>
  Claim C10. Without a socket, and so also after \<open>stop\<close>, \<open>poll_translations\<close> returns
  the empty list, raises nothing and changes nothing, whereas \<open>_send_json\<close> (and with
  it \<open>_send_session_update\<close>) raises \<^verbatim>\<open>RuntimeError\<close>.
\<close>

theorem poll_without_session:
  "(ws self = None \<longrightarrow>
      poll_translations L self = (Inr [], self) \<and>
      send_json self message = (Inl (RuntimeError msg_not_connected), self) \<and>
      send_session_update now self =
        (Inl (RuntimeError msg_not_connected), self\<lparr>event_counter := event_counter self + 1\<rparr>)) \<and>
   poll_translations L (snd (stop self)) = (Inr [], snd (stop self))"
  by (auto simp: poll_translations_def send_json_def send_session_update_def next_event_id_def
      stop_def ws_close_def Let_def split: option.splits prod.splits)

lemma drain_earlier:
  "handle_events L earlier ts = Inr ts' \<Longrightarrow>
   drain L (map Message earlier @ rest) ts = drain L rest ts'"
proof (induction earlier arbitrary: ts)
  case Nil
  then show ?case by simp
next
  case (Cons p ps)
  then show ?case by (cases "handle_event L p ts") simp_all
qed

lemma error_type_not_text: "\<not> contains (ascii ''error'') (ascii ''response.text'')"
  by (simp add: ascii_def startswith_def)

lemma handle_error_event:
  assumes "dict_get data (ascii ''type'') = JStr (ascii ''error'')"
  shows "handle_event L (JObj data) ts = Inl (RuntimeError (error_prefix @ error_details L data))"
proof -
  have ne: "ascii ''error'' \<noteq> ascii ''response.audio_transcript.delta''"
    "ascii ''error'' \<noteq> ascii ''response.audio_transcript.done''"
    "ascii ''error'' \<noteq> ascii ''response.content_part.added''"
    "ascii ''error'' \<noteq> []"
    by (simp_all add: ascii_def)
  have "has_response_text (JStr (ascii ''error'')) = Inr False"
    using ne error_type_not_text by (simp add: has_response_text_def)
  with assms ne show ?thesis
    by (simp add: handle_event_def)
qed

lemma error_details_cases:
  "(truthy (dict_get data (ascii ''message'')) \<longrightarrow>
      error_details L data = py_format L (dict_get data (ascii ''message''))) \<and>
   (\<not> truthy (dict_get data (ascii ''message'')) \<and>
    dict_get data (ascii ''error'') = JObj err \<and> truthy (dict_get err (ascii ''message'')) \<longrightarrow>
      error_details L data = py_format L (dict_get err (ascii ''message''))) \<and>
   (\<not> truthy (dict_get data (ascii ''message'')) \<and>
    dict_get data (ascii ''error'') = JObj err \<and> \<not> truthy (dict_get err (ascii ''message'')) \<longrightarrow>
      error_details L data = json_dumps L (JObj data)) \<and>
   (\<not> truthy (dict_get data (ascii ''message'')) \<and>
    (\<forall>err. dict_get data (ascii ''error'') \<noteq> JObj err) \<longrightarrow>
      error_details L data = json_dumps L (JObj data))"
  by (auto simp: error_details_def Let_def py_format_def split: json.splits)

text \<open>
  Claim C3. When a poll call, after events it handled without raising (whatever texts
  \<open>collected\<close> they gave), receives an event of type \<open>error\<close>, it raises
  \<^verbatim>\<open>RuntimeError\<close> and returns no text: the result is the exception alone. The text of
  the exception is the fixed prefix of the source followed by the details: the
  \<open>message\<close> field when it is true (a string is taken as it is, so \<open>quota exceeded\<close>
  appears exactly), otherwise the \<open>message\<close> of a nested \<open>error\<close> dict when that is
  true, otherwise the serialised event.
\<close>

theorem poll_error_event:
  assumes "ws self = Some sock"
    and "incoming sock = map Message earlier @ Message (JObj data) # later"
    and "handle_events L earlier [] = Inr collected"
    and "dict_get data (ascii ''type'') = JStr (ascii ''error'')"
  shows "poll_translations L self =
      (Inl (RuntimeError (error_prefix @ error_details L data)),
       self\<lparr>ws := Some (sock\<lparr>incoming := later\<rparr>)\<rparr>) \<and>
    (m \<noteq> [] \<and> dict_get data (ascii ''message'') = JStr m \<longrightarrow> error_details L data = m) \<and>
    (truthy (dict_get data (ascii ''message'')) \<longrightarrow>
      error_details L data = py_format L (dict_get data (ascii ''message''))) \<and>
    (\<not> truthy (dict_get data (ascii ''message'')) \<and>
     dict_get data (ascii ''error'') = JObj err \<and> truthy (dict_get err (ascii ''message'')) \<longrightarrow>
       error_details L data = py_format L (dict_get err (ascii ''message''))) \<and>
    (\<not> truthy (dict_get data (ascii ''message'')) \<and>
     dict_get data (ascii ''error'') = JObj err \<and> \<not> truthy (dict_get err (ascii ''message'')) \<longrightarrow>
       error_details L data = json_dumps L (JObj data)) \<and>
    (\<not> truthy (dict_get data (ascii ''message'')) \<and>
     (\<forall>e. dict_get data (ascii ''error'') \<noteq> JObj e) \<longrightarrow>
       error_details L data = json_dumps L (JObj data))"
proof -
  have "drain L (incoming sock) [] = drain L (Message (JObj data) # later) collected"
    using assms(2,3) by (simp add: drain_earlier)
  also have "\<dots> = (Inl (RuntimeError (error_prefix @ error_details L data)), later)"
    using assms(4) by (simp add: handle_error_event)
  finally have "poll_translations L self =
      (Inl (RuntimeError (error_prefix @ error_details L data)),
       self\<lparr>ws := Some (sock\<lparr>incoming := later\<rparr>)\<rparr>)"
    using assms(1) by (simp add: poll_translations_def)
  moreover have "m \<noteq> [] \<and> dict_get data (ascii ''message'') = JStr m \<longrightarrow> error_details L data = m"
    by (auto simp: error_details_def Let_def py_format_def)
  ultimately show ?thesis
    using error_details_cases [of data L err] by blast
qed

text \<open>
  Claim C8. With a zero counter the mock backend's poll returns the empty list. With a
  non-zero counter (and a non-zero sample rate, so that the division is defined) it
  returns exactly one status string, built from \<open>buffer / (samplerate * 2)\<close> seconds,
  and resets the counter. Two polls in a row never both return text. \<open>start\<close>,
  \<open>flush\<close> and \<open>stop\<close> reset the counter; \<open>send_audio\<close> adds the length of the chunk.
\<close>

theorem mock_backend_contract:
  "(buffer self = 0 \<longrightarrow> mock_poll_translations L self = (Inr [], self)) \<and>
   (buffer self \<noteq> 0 \<and> samplerate self \<noteq> 0 \<longrightarrow>
      mock_poll_translations L self =
        (Inr [mock_prefix @
              format_1f L (of_int (buffer self) / of_int (samplerate self * 2)) @
              mock_suffix],
         self\<lparr>buffer := 0\<rparr>)) \<and>
   \<not> (returns_text (fst (mock_poll_translations L self)) \<and>
      returns_text (fst (mock_poll_translations L (snd (mock_poll_translations L self))))) \<and>
   buffer (mock_start self) = 0 \<and> buffer (mock_flush self) = 0 \<and> buffer (mock_stop self) = 0 \<and>
   buffer (mock_send_audio self pcm_chunk) = buffer self + int (length pcm_chunk)"
  by (simp add: mock_poll_translations_def mock_start_def mock_flush_def mock_stop_def
      mock_send_audio_def returns_text_def Let_def)

section \<open>The conversion to PCM\<close>

lemma trunc_zero_bounds:
  assumes "- 32767 \<le> y" "y \<le> 32767"
  shows "- 32767 \<le> trunc_zero y \<and> trunc_zero y \<le> 32767"
proof (cases "y < 0")
  case True
  then have "\<lceil>y\<rceil> \<le> 0" by (simp add: ceiling_le_zero)
  moreover have "- 32767 \<le> \<lceil>y\<rceil>" using assms(1) by (simp add: le_ceiling_iff)
  ultimately show ?thesis using True by (simp add: trunc_zero_def)
next
  case False
  then have "0 \<le> \<lfloor>y\<rfloor>" by simp
  moreover have "\<lfloor>y\<rfloor> \<le> 32767" using assms(2) by (simp add: floor_le_iff)
  ultimately show ?thesis using False by (simp add: trunc_zero_def)
qed

lemma clip_cases:
  "clip (Finite x) (- 1) 1 = Finite (min (max x (- 1)) 1)"
  "clip PosInf (- 1) 1 = Finite 1"
  "clip NegInf (- 1) 1 = Finite (- 1)"
  "clip NaN (- 1) 1 = NaN"
  by (simp_all add: clip_def)

lemma clip_within_unit: "s \<noteq> NaN \<Longrightarrow> within_unit (clip s (- 1) 1)"
  by (cases s) (simp_all add: clip_cases)

lemma rounded_bounds:
  fixes c :: rat
  assumes "mono rnd" "rnd 32767 = 32767" "rnd (- 32767) = - 32767"
    and "- 1 \<le> c" "c \<le> 1"
  shows "- 32767 \<le> rnd (c * 32767) \<and> rnd (c * 32767) \<le> 32767"
proof -
  have lo: "- 32767 \<le> c * 32767" and hi: "c * 32767 \<le> 32767"
    using assms(4,5) by simp_all
  have "rnd (- 32767) \<le> rnd (c * 32767)"
    using assms(1) lo by (rule monoD)
  moreover have "rnd (c * 32767) \<le> rnd 32767"
    using assms(1) hi by (rule monoD)
  ultimately show ?thesis using assms(2,3) by simp
qed

lemma sint_int16: "- 32768 \<le> n \<Longrightarrow> n < 32768 \<Longrightarrow> sint (word_of_int n :: 16 word) = n"
  by (simp add: sint_sbintrunc' signed_take_bit_int_eq_self)

lemma astype_in_range:
  assumes "- 32767 \<le> y" "y \<le> 32767"
  shows "sint (astype_int16 cast (Finite y)) = trunc_zero y"
proof -
  have b: "- 32767 \<le> trunc_zero y \<and> trunc_zero y \<le> 32767"
    using assms by (rule trunc_zero_bounds)
  then have "sint (word_of_int (trunc_zero y) :: 16 word) = trunc_zero y"
    by (intro sint_int16) simp_all
  with b show ?thesis by simp
qed

lemma pcm16_sample_spec:
  assumes "mono rnd" "rnd 32767 = 32767" "rnd (- 32767) = - 32767"
  shows "sint (pcm16_sample rnd cast s) = spec_pcm16 rnd cast s"
proof (cases s)
  case (Finite x)
  let ?y = "rnd (min (max x (- 1)) 1 * 32767)"
  have "- 32767 \<le> ?y \<and> ?y \<le> 32767"
    using assms by (rule rounded_bounds) simp_all
  then have "sint (astype_int16 cast (Finite ?y)) = trunc_zero ?y"
    by (intro astype_in_range) simp_all
  then show ?thesis
    using Finite
    by (simp add: pcm16_sample_def clip_cases int16_max_def del: astype_int16.simps)
next
  case PosInf
  have "sint (astype_int16 cast (Finite 32767)) = trunc_zero 32767"
    by (intro astype_in_range) simp_all
  then show ?thesis
    using PosInf assms(2)
    by (simp add: pcm16_sample_def clip_cases int16_max_def del: astype_int16.simps)
next
  case NegInf
  have "sint (astype_int16 cast (Finite (- 32767))) = trunc_zero (- 32767)"
    by (intro astype_in_range) simp_all
  then show ?thesis
    using NegInf assms(3)
    by (simp add: pcm16_sample_def clip_cases int16_max_def del: astype_int16.simps)
next
  case NaN
  then show ?thesis by (simp add: pcm16_sample_def clip_cases)
qed

lemma spec_pcm16_bounds:
  assumes "mono rnd" "rnd 32767 = 32767" "rnd (- 32767) = - 32767" "s \<noteq> NaN"
  shows "- 32767 \<le> spec_pcm16 rnd cast s \<and> spec_pcm16 rnd cast s \<le> 32767"
proof (cases s)
  case (Finite x)
  have "- 32767 \<le> rnd (min (max x (- 1)) 1 * 32767) \<and> rnd (min (max x (- 1)) 1 * 32767) \<le> 32767"
    using assms(1-3) by (rule rounded_bounds) simp_all
  then show ?thesis using Finite by (simp add: trunc_zero_bounds)
next
  case PosInf
  then show ?thesis using assms(2) by (simp add: trunc_zero_def)
next
  case NegInf
  then show ?thesis using assms(3) by (simp add: trunc_zero_def)
next
  case NaN
  with assms(4) show ?thesis by simp
qed

lemma word16_bytes:
  "(ucast (ucast w :: 8 word) OR push_bit 8 (ucast (ucast (drop_bit 8 w) :: 8 word)) :: 16 word) = w"
  by (rule bit_word_eqI) (auto simp add: bit_simps)

lemma frombuffer_tobytes: "frombuffer_int16 (tobytes samples) = map sint samples"
  by (induction samples) (simp_all add: tobytes_def word16_bytes)

lemma length_tobytes: "length (tobytes samples) = 2 * length samples"
  by (induction samples) (simp_all add: tobytes_def)

text \<open>
  Claim C6, as amended. The conversion is a function of the samples alone. For every list
  of samples, the bytes it returns are two per sample and read back, in order, as the
  16-bit values the specification describes: a sample that is not NaN is clipped to
  \<open>[-1, 1]\<close> (an infinity to the bound), multiplied by 32767 and truncated, which gives
  a value between -32767 and 32767; a NaN sample is not clipped, and its value is the one
  the platform's cast gives. The samples \<open>[1.5, -2.0, 0.0]\<close> give \<open>[32767, -32767, 0]\<close>.
  This holds for every rounding \<open>rnd\<close> of the product that is monotone and leaves 32767,
  -32767 and 0 as they are, as the rounding to a float does.
\<close>

theorem float_to_pcm16_contract:
  assumes "mono rnd" "rnd 32767 = 32767" "rnd (- 32767) = - 32767" "rnd 0 = 0"
  shows "frombuffer_int16 (float_to_pcm16 rnd cast data) = map (spec_pcm16 rnd cast) data \<and>
         length (float_to_pcm16 rnd cast data) = 2 * length data \<and>
         (s \<noteq> NaN \<longrightarrow>
            within_unit (clip s (- 1) 1) \<and>
            - 32767 \<le> spec_pcm16 rnd cast s \<and> spec_pcm16 rnd cast s \<le> 32767) \<and>
         clip NaN (- 1) 1 = NaN \<and> pcm16_sample rnd cast NaN = cast NaN \<and>
         float_to_pcm16 rnd cast [Finite (3 / 2), Finite (- 2), Finite 0] =
           [0xFF, 0x7F, 0x01, 0x80, 0x00, 0x00] \<and>
         frombuffer_int16 (float_to_pcm16 rnd cast [Finite (3 / 2), Finite (- 2), Finite 0]) =
           [32767, - 32767, 0]"
proof -
  have 1: "frombuffer_int16 (float_to_pcm16 rnd cast data) = map (spec_pcm16 rnd cast) data" for data
    using pcm16_sample_spec [OF assms(1-3)]
    by (simp add: float_to_pcm16_def int_data_def frombuffer_tobytes)
  have 2: "length (float_to_pcm16 rnd cast data) = 2 * length data"
    by (simp add: float_to_pcm16_def int_data_def length_tobytes)
  have 3: "s \<noteq> NaN \<longrightarrow>
            within_unit (clip s (- 1) 1) \<and>
            - 32767 \<le> spec_pcm16 rnd cast s \<and> spec_pcm16 rnd cast s \<le> 32767"
    using spec_pcm16_bounds [OF assms(1-3)] clip_within_unit by blast
  have 4: "clip NaN (- 1) 1 = NaN \<and> pcm16_sample rnd cast NaN = cast NaN"
    by (simp add: pcm16_sample_def clip_cases)
  have 5: "int_data rnd cast [Finite (3 / 2), Finite (- 2), Finite 0] = [32767, - 32767, 0]"
    using assms(2-4)
    by (simp add: int_data_def pcm16_sample_def clip_cases int16_max_def trunc_zero_def)
  have 6: "tobytes [32767, - 32767, 0 :: 16 word] = [0xFF, 0x7F, 0x01, 0x80, 0x00, 0x00]"
    by (simp add: tobytes_def drop_bit_eq_div)
  have 7: "frombuffer_int16 (float_to_pcm16 rnd cast [Finite (3 / 2), Finite (- 2), Finite 0]) =
           [32767, - 32767, 0]"
    using assms(2-4) by (simp add: 1 trunc_zero_def)
  show ?thesis
    using 1 2 3 4 5 6 7 by (simp add: float_to_pcm16_def)
qed

theorem float_to_pcm16_contract_witness:
  "mono (\<lambda>x::rat. x) \<and>
   float_to_pcm16 (\<lambda>x. x) (\<lambda>s. 0) [Finite (1 / 2), NegInf, NaN, Finite (- 1 / 3)] =
     [0xFF, 0x3F, 0x01, 0x80, 0x00, 0x00, 0x56, 0xD5] \<and>
   frombuffer_int16
     (float_to_pcm16 (\<lambda>x. x) (\<lambda>s. 0) [Finite (1 / 2), NegInf, NaN, Finite (- 1 / 3)]) =
     [16383, - 32767, 0, - 10922]"
proof -
  have m: "mono (\<lambda>x::rat. x)" by (simp add: mono_def)
  have v: "map (spec_pcm16 (\<lambda>x. x) (\<lambda>s. 0)) [Finite (1 / 2), NegInf, NaN, Finite (- 1 / 3)] =
      [16383, - 32767, 0, - 10922]"
    by (simp add: trunc_zero_def floor_eq_iff ceiling_eq_iff)
  have fl: "\<lfloor>(32767::rat) / 2\<rfloor> = 16383" "\<lceil>- ((32767::rat) / 3)\<rceil> = - 10922"
    by (simp_all add: floor_eq_iff ceiling_eq_iff)
  have b: "float_to_pcm16 (\<lambda>x. x) (\<lambda>s. 0) [Finite (1 / 2), NegInf, NaN, Finite (- 1 / 3)] =
      [0xFF, 0x3F, 0x01, 0x80, 0x00, 0x00, 0x56, 0xD5]"
    by (simp add: float_to_pcm16_def int_data_def pcm16_sample_def clip_cases int16_max_def
        trunc_zero_def fl tobytes_def drop_bit_eq_div)
  show ?thesis
    using m v b
      float_to_pcm16_contract [OF m, where cast = "\<lambda>s. 0"
        and data = "[Finite (1 / 2), NegInf, NaN, Finite (- 1 / 3)]"]
    by simp
qed

text \<open>
  The claim as first stated says that every sample is clipped to \<open>[-1, 1]\<close>. A NaN sample
  is not: \<^verbatim>\<open>np.clip\<close> returns it as it is, and the bytes written for it are those of
  the platform's cast of NaN (here a platform where that is 0).
\<close>

theorem float_to_pcm16_nan_counterexample:
  "clip NaN (- 1) 1 = NaN \<and> \<not> within_unit (clip NaN (- 1) 1) \<and>
   float_to_pcm16 (\<lambda>x. x) (\<lambda>s. 0) [NaN] = [0x00, 0x00]"
  by (simp add: clip_def float_to_pcm16_def int_data_def pcm16_sample_def tobytes_def)

section \<open>The contracts on examples\<close>

lemmas example_defs = example_backend_def example_socket_def example_lib_def

theorem send_audio_contract_witness:
  "send_audio 1700000000123 (example_backend\<lparr>ws := Some example_socket\<rparr>) [0x00, 0x01, 0xFF, 0x7F] =
     (Inr (), example_backend
        \<lparr>event_counter := 1,
         ws := Some (example_socket\<lparr>sent :=
           [JObj [(ascii ''event_id'', JStr (ascii ''event_1700000000123_1'')),
                  (ascii ''type'', JStr (ascii ''input_audio_buffer.append'')),
                  (ascii ''audio'', JStr (ascii ''AAH/fw==''))]]\<rparr>)\<rparr>) \<and>
   send_audio 1700000000123 example_backend [0x00, 0x01, 0xFF, 0x7F] = (Inr (), example_backend) \<and>
   send_audio 1700000000123 (example_backend\<lparr>ws := Some example_socket\<rparr>) [] =
     (Inr (), example_backend\<lparr>ws := Some example_socket\<rparr>)"
proof -
  let ?B = "example_backend\<lparr>ws := Some example_socket\<rparr>"
  have m: "spec_audio_message 1700000000123 1 [0x00, 0x01, 0xFF, 0x7F] =
      JObj [(ascii ''event_id'', JStr (ascii ''event_1700000000123_1'')),
            (ascii ''type'', JStr (ascii ''input_audio_buffer.append'')),
            (ascii ''audio'', JStr (ascii ''AAH/fw==''))]"
    by (simp add: spec_audio_message_def str_int_def digits_small digits_large ascii_def
        b64_char_def b64_alphabet_def)
  have h: "ws ?B = Some example_socket" "send_raises example_socket = None"
    "event_counter ?B = 0" "sent example_socket = []" "ws example_backend = None"
    by (simp_all add: example_defs)
  show ?thesis
    using send_audio_contract [where self = ?B and pcm_chunk = "[0x00, 0x01, 0xFF, 0x7F]"
        and now = 1700000000123 and sock = example_socket]
      send_audio_contract [where self = example_backend and pcm_chunk = "[0x00, 0x01, 0xFF, 0x7F]"
        and now = 1700000000123]
      send_audio_contract [where self = ?B and pcm_chunk = "[]" and now = 1700000000123]
      m h
    by simp
qed

theorem stop_swallows_counterexample:
  "fst (stop (example_backend\<lparr>ws := Some (example_socket
      \<lparr>close_raises := Some (Transport_error (ascii ''socket is already closed.''))\<rparr>)\<rparr>)) =
   Inl (Transport_error (ascii ''socket is already closed.''))"
  by (simp add: stop_def ws_close_def example_defs)

theorem stop_contract_witness:
  "stop (example_backend\<lparr>ws := Some example_socket\<rparr>) =
     (Inr (), example_backend\<lparr>ws := None, dropped := [example_socket\<lparr>is_closed := True\<rparr>]\<rparr>) \<and>
   stop example_backend = (Inr (), example_backend) \<and>
   stop (example_backend\<lparr>ws := Some (example_socket\<lparr>close_raises := Some TypeError\<rparr>)\<rparr>) =
     (Inl TypeError,
      example_backend\<lparr>ws := None, dropped := [example_socket\<lparr>close_raises := Some TypeError\<rparr>]\<rparr>)"
proof -
  have h: "ws example_backend = None" "dropped example_backend = []"
    "close_raises example_socket = None"
    by (simp_all add: example_defs)
  show ?thesis
    using stop_contract [where self = "example_backend\<lparr>ws := Some example_socket\<rparr>"
        and sock = example_socket]
      stop_contract [where self = example_backend]
      stop_contract [where self = "example_backend\<lparr>ws := Some (example_socket\<lparr>close_raises := Some TypeError\<rparr>)\<rparr>"
        and sock = "example_socket\<lparr>close_raises := Some TypeError\<rparr>" and e = TypeError]
      h
    by simp
qed

theorem poll_without_session_witness:
  "ws example_backend = None \<and>
   poll_translations example_lib example_backend = (Inr [], example_backend) \<and>
   send_json example_backend JNull = (Inl (RuntimeError msg_not_connected), example_backend) \<and>
   poll_translations example_lib (snd (stop (example_backend\<lparr>ws := Some example_socket\<rparr>))) =
     (Inr [], snd (stop (example_backend\<lparr>ws := Some example_socket\<rparr>)))"
proof -
  have h: "ws example_backend = None" by (simp add: example_defs)
  show ?thesis
    using h poll_without_session [where self = example_backend and L = example_lib and message = JNull]
      poll_without_session [where self = "example_backend\<lparr>ws := Some example_socket\<rparr>" and L = example_lib]
    by simp
qed

theorem poll_error_event_witness:
  "handle_events example_lib [example_delta] [] = Inr [JStr (ascii ''hello'')] \<and>
   poll_translations example_lib
     (example_backend\<lparr>ws := Some (example_socket
        \<lparr>incoming := [Message example_delta, Message (JObj example_error), Timeout]\<rparr>)\<rparr>) =
   (Inl (RuntimeError (error_prefix @ ascii ''quota exceeded'')),
    example_backend\<lparr>ws := Some (example_socket\<lparr>incoming := [Timeout]\<rparr>)\<rparr>)"
proof -
  let ?sock = "example_socket\<lparr>incoming := [Message example_delta, Message (JObj example_error), Timeout]\<rparr>"
  let ?B = "example_backend\<lparr>ws := Some ?sock\<rparr>"
  have 1: "ws ?B = Some ?sock" by simp
  have 2: "incoming ?sock = map Message [example_delta] @ Message (JObj example_error) # [Timeout]"
    by simp
  have 3: "handle_events example_lib [example_delta] [] = Inr [JStr (ascii ''hello'')]"
    by (simp add: example_delta_def handle_event_def dict_get_def hashable.simps
        append_if_true_def ascii_def)
  have 4: "dict_get example_error (ascii ''type'') = JStr (ascii ''error'')"
    by (simp add: example_error_def dict_get_def ascii_def)
  have 5: "ascii ''quota exceeded'' \<noteq> [] \<and>
      dict_get example_error (ascii ''message'') = JStr (ascii ''quota exceeded'')"
    by (simp add: example_error_def dict_get_def ascii_def)
  show ?thesis
    using poll_error_event [OF 1 2 3 4, where m = "ascii ''quota exceeded''"] 3 5
    by simp
qed

theorem mock_backend_contract_witness:
  "mock_poll_translations example_lib \<lparr>buffer = 32000, samplerate = 16000\<rparr> =
     (Inr [mock_prefix @ ascii ''1.0'' @ mock_suffix], \<lparr>buffer = 0, samplerate = 16000\<rparr>) \<and>
   mock_poll_translations example_lib \<lparr>buffer = 0, samplerate = 16000\<rparr> =
     (Inr [], \<lparr>buffer = 0, samplerate = 16000\<rparr>)"
proof -
  have fl: "\<lfloor>(21::rat) / 2\<rfloor> = 10"
    by (simp add: floor_eq_iff)
  have f: "format_1f example_lib (of_int 32000 / of_int (16000 * 2)) = ascii ''1.0''"
    by (simp add: example_lib_def example_format_1f_def str_int_def digits_small ascii_def fl)
  show ?thesis
    using f mock_backend_contract [where self = "\<lparr>buffer = 32000, samplerate = 16000\<rparr>" and L = example_lib]
      mock_backend_contract [where self = "\<lparr>buffer = 0, samplerate = 16000\<rparr>" and L = example_lib]
    by simp
qed

section \<open>The worker's run\<close>

lemma example_error_handled:
  "handle_event L (JObj example_error) [] =
     Inl (RuntimeError (error_prefix @ ascii ''quota exceeded''))"
proof -
  have "dict_get example_error (ascii ''type'') = JStr (ascii ''error'')"
    by (simp add: example_error_def dict_get_def ascii_def)
  moreover have "error_details L example_error = ascii ''quota exceeded''"
    by (simp add: error_details_def example_error_def dict_get_def py_format_def ascii_def)
  ultimately show ?thesis by (simp add: handle_error_event)
qed

lemma log_call_simps:
  "backend_calls (log_call c w) = backend_calls w @ [c]"
  "signals (log_call c w) = signals w"
  "last_caption (log_call c w) = last_caption w"
  by (simp_all add: log_call_def)

lemma emit_captions_calls:
  "backend_calls (snd (emit_captions self captions)) = backend_calls self"
  by (induction captions arbitrary: self) (auto split: sum.splits)

lemma stream_loop_calls:
  "stream_loop L self b ticks fin = (r, self', b') \<Longrightarrow>
   \<exists>cs. backend_calls self' = backend_calls self @ cs \<and>
        set cs \<subseteq> {Call_send_audio, Call_poll_translations}"
proof (induction L self b ticks fin arbitrary: r self' b' rule: stream_loop.induct)
  case (1 L self b)
  then show ?case by simp
next
  case (2 L self b e)
  then show ?case by simp
next
  case (3 L self b t ticks fin)
  show ?case
  proof (cases "stop_is_set t")
    case True
    with 3(2) show ?thesis by simp
  next
    case False
    obtain r1 b1 where s: "backend_send_audio (clock t) b (chunk t) = (r1, b1)"
      by (cases "backend_send_audio (clock t) b (chunk t)")
    show ?thesis
    proof (cases r1)
      case (Inl e)
      with 3(2) False s show ?thesis by (auto simp: log_call_def)
    next
      case (Inr u)
      obtain r2 b2 where p: "backend_poll_translations L b1 = (r2, b2)"
        by (cases "backend_poll_translations L b1")
      show ?thesis
      proof (cases r2)
        case (Inl e)
        with 3(2) False s Inr p show ?thesis by (auto simp: log_call_def)
      next
        case r2: (Inr captions)
        let ?w = "log_call Call_poll_translations (log_call Call_send_audio self)"
        obtain r3 w3 where c: "emit_captions ?w captions = (r3, w3)"
          by (cases "emit_captions ?w captions")
        have w3: "backend_calls w3 = backend_calls self @ [Call_send_audio, Call_poll_translations]"
          using emit_captions_calls [of ?w captions] c by (simp add: log_call_def)
        show ?thesis
        proof (cases r3)
          case (Some e)
          with 3(2) False s Inr p r2 c w3 show ?thesis by auto
        next
          case None
          with 3(2) False s Inr p r2 c
          have "stream_loop L w3 b2 ticks fin = (r, self', b')" by simp
          from 3(1) [OF False s [symmetric] Inr p [symmetric] r2 c [symmetric] None this]
          obtain cs where "backend_calls self' = backend_calls w3 @ cs"
            "set cs \<subseteq> {Call_send_audio, Call_poll_translations}"
            by auto
          with w3 show ?thesis by auto
        qed
      qed
    qed
  qed
qed

lemma run_when_loop_raises:
  assumes "create_backend L self = Inr b0"
    and "backend_start L now b0 = (Inr u, b1)"
    and "stream_loop L
           (log_call Call_start (self\<lparr>worker_backend := Some b0\<rparr>)\<lparr>last_caption := []\<rparr>)
           b1 ticks fin = (Some e, self1, b2)"
  shows "signals (run L now self ticks fin) = signals self1 @ [Error_occurred (str_exc L e)] \<and>
         released_backend (run L now self ticks fin) = Some b2 \<and>
         (\<exists>cs. backend_calls (run L now self ticks fin) = backend_calls self @ Call_start # cs \<and>
               set cs \<subseteq> {Call_send_audio, Call_poll_translations})"
proof -
  from stream_loop_calls [OF assms(3)]
  obtain cs where "backend_calls self1 = backend_calls self @ Call_start # cs"
    "set cs \<subseteq> {Call_send_audio, Call_poll_translations}"
    by (auto simp: log_call_def)
  with assms show ?thesis
    by (simp add: run_def run_try_def)
qed

text \<open>
  Claim C4, at a run where the loop body raises. The service answers the first chunk with
  an error event, so \<open>poll_translations\<close> raises inside the loop. The exception is caught
  once and gives one \<open>error_occurred\<close> signal, and the loop is not entered again; but
  \<open>flush\<close> and \<open>stop\<close> are not invoked (the calls are start, send, poll), and the
  socket of the backend that \<open>run\<close> lets go of is still open. On the exit by the stop
  event both are invoked, in that order. \<open>run_when_loop_raises\<close> shows the same for every
  run whose loop raises.
\<close>

theorem run_error_skips_cleanup:
  "signals (run example_failing_lib 1700000000000 example_worker [example_tick] Stream_ends) =
     [Error_occurred (error_prefix @ ascii ''quota exceeded'')] \<and>
   backend_calls (run example_failing_lib 1700000000000 example_worker [example_tick] Stream_ends) =
     [Call_start, Call_send_audio, Call_poll_translations] \<and>
   (case released_backend
           (run example_failing_lib 1700000000000 example_worker [example_tick] Stream_ends) of
      Some (DashScope b) \<Rightarrow> map_option is_closed (ws b) = Some False \<and> dropped b = []
    | _ \<Rightarrow> False) \<and>
   backend_calls
     (run example_failing_lib 1700000000000 example_worker
        [example_tick\<lparr>stop_is_set := True\<rparr>] Stream_ends) =
     [Call_start, Call_flush, Call_stop]"
proof -
  have cfg: "api_key (worker_config example_worker) \<noteq> []"
    by (simp add: example_worker_def example_backend_def ascii_def)
  have cb: "create_backend example_failing_lib example_worker =
      Inr (DashScope (example_backend\<lparr>ds_samplerate := 16000\<rparr>))"
    using cfg
    by (simp add: create_backend_def dashscope_init_def example_failing_lib_def example_lib_def
        example_worker_def example_backend_def)
  let ?L = example_failing_lib
  let ?b0 = "DashScope (example_backend\<lparr>ds_samplerate := 16000\<rparr>)"
  have cc: "create_connection ?L = (\<lambda>u h. Inr (example_socket\<lparr>url := u, header := h,
                                  incoming := [Message (JObj example_error)]\<rparr>))"
    by (simp add: example_failing_lib_def)
  have sr: "send_raises example_socket = None" "close_raises example_socket = None"
    "is_closed example_socket = False"
    by (simp_all add: example_socket_def)
  have eb: "ws example_backend = None" "dropped example_backend = []"
    "api_key (config example_backend) \<noteq> []"
    by (simp_all add: example_backend_def ascii_def)
  have tk: "stop_is_set example_tick = False" "chunk example_tick \<noteq> []"
    by (simp_all add: example_tick_def)
  have se: "str_exc ?L (RuntimeError m) = m" for m
    by (simp add: str_exc_def)
  have ew: "signals example_worker = []" "backend_calls example_worker = []"
    by (simp_all add: example_worker_def)
  show ?thesis
    using tk
    by (simp add: run_def run_try_def cb cc sr eb se ew start_def send_session_update_def
        next_event_id_def send_json_def send_audio_def poll_translations_def
        example_error_handled log_call_simps flush_def stop_def ws_close_def Let_def
        split: prod.splits)
qed

end
